theory Spec2Isabelle
  imports Complex_Main "HOL-Library.AList"
begin

section \<open>Values handled by the project store\<close>

text \<open>
  The store of \<^verbatim>\<open>src/contexts/ProjectContext.tsx\<close> keeps whatever \<^verbatim>\<open>JSON.parse\<close>, the
  generation service or a caller hands to it: TypeScript's types are erased at run time. A
  value is therefore a JSON value. An object is the list of its properties in insertion
  order; reading a property that is not there gives \<^verbatim>\<open>undefined\<close>, which is \<open>None\<close> here.
  A number is carried by its value; the source only ever tests a number for being zero.
\<close>

datatype json =
    JNull
  | JBool bool
  | JNum rat
  | JStr string
  | JArr "json list"
  | JObj "(string \<times> json) list"

text \<open>A document (\<^verbatim>\<open>ProjectData\<close>) is an object: its property list.\<close>

type_synonym ProjectData = "(string \<times> json) list"

text \<open>JavaScript truthiness, as \<^verbatim>\<open>if (x)\<close>, \<^verbatim>\<open>!x\<close> and \<^verbatim>\<open>a && b\<close> test it.\<close>

fun truthy :: "json \<Rightarrow> bool" where
  "truthy JNull = False"
| "truthy (JBool b) = b"
| "truthy (JNum n) = (n \<noteq> 0)"
| "truthy (JStr s) = (s \<noteq> [])"
| "truthy (JArr xs) = True"
| "truthy (JObj ps) = True"

definition truthyProp :: "json option \<Rightarrow> bool" where
  "truthyProp p = (case p of None \<Rightarrow> False | Some v \<Rightarrow> truthy v)"

text \<open>
  What a \<^verbatim>\<open>try\<close> block can throw: the \<^verbatim>\<open>SyntaxError\<close> of \<^verbatim>\<open>JSON.parse\<close> (with its
  message), the \<^verbatim>\<open>TypeError\<close> of reading a property of \<^verbatim>\<open>null\<close> or \<^verbatim>\<open>undefined\<close> or of
  calling a method the value does not have (with the name of the property), and an
  \<^verbatim>\<open>Error\<close> created with a message.
\<close>

datatype error = SyntaxError string | TypeError string | Error string

text \<open>
  The parts of the JavaScript platform the source calls and does not define.
  \<open>JSON_parse\<close> returns the parsed value or the message of the \<^verbatim>\<open>SyntaxError\<close> it throws;
  \<open>JSON_stringify n v\<close> is \<^verbatim>\<open>JSON.stringify(v, null, n)\<close> (with \<open>n = 0\<close> it is
  \<^verbatim>\<open>JSON.stringify(v)\<close>); \<open>typeErrorMessage\<close> is the engine's wording of a \<^verbatim>\<open>TypeError\<close>.
\<close>

record platform =
  JSON_parse :: "string \<Rightarrow> string + json"
  JSON_stringify :: "nat \<Rightarrow> json \<Rightarrow> string"
  typeErrorMessage :: "string \<Rightarrow> string"

text \<open>\<^verbatim>\<open>(error as Error).message\<close>\<close>

fun message :: "platform \<Rightarrow> error \<Rightarrow> string" where
  "message P (SyntaxError m) = m"
| "message P (TypeError k) = typeErrorMessage P k"
| "message P (Error m) = m"

section \<open>The state\<close>

text \<open>
  The three \<^verbatim>\<open>useState\<close> cells of \<^verbatim>\<open>ProjectProvider\<close>, and the parts of the browser the
  operations act on: \<^verbatim>\<open>localStorage\<close>, the messages shown by \<^verbatim>\<open>alert\<close>, the questions asked
  by \<^verbatim>\<open>window.confirm\<close>, the lines of \<^verbatim>\<open>console.error\<close>, the files offered for download, the
  calls made to the generation service, and the timers set by \<^verbatim>\<open>setTimeout\<close> (a clock in
  milliseconds and the deadline of every pending callback; every callback of this file is
  \<^verbatim>\<open>setIsHumanizingCooldown(false)\<close>).
\<close>

record state =
  projectData :: "ProjectData option"
  isCreatingProject :: bool
  isHumanizingCooldown :: bool
  localStorage :: "string \<rightharpoonup> string"
  alerts :: "string list"
  confirms :: "string list"
  console :: "(string \<times> error) list"
  downloads :: "(string \<times> string) list"
  requests :: "(ProjectData \<times> json option \<times> json option) list"
  now :: nat
  timers :: "nat list"

definition storageKey :: string where
  "storageKey = ''academicProject''"

definition alert :: "string \<Rightarrow> state \<Rightarrow> state" where
  "alert m w = w\<lparr>alerts := alerts w @ [m]\<rparr>"

definition console_error :: "string \<Rightarrow> error \<Rightarrow> state \<Rightarrow> state" where
  "console_error l e w = w\<lparr>console := console w @ [(l, e)]\<rparr>"

definition setItem :: "string \<Rightarrow> string \<Rightarrow> state \<Rightarrow> state" where
  "setItem k v w = w\<lparr>localStorage := (localStorage w)(k \<mapsto> v)\<rparr>"

definition removeItem :: "string \<Rightarrow> state \<Rightarrow> state" where
  "removeItem k w = w\<lparr>localStorage := (localStorage w)(k := None)\<rparr>"

section \<open>Compatibility backfill\<close>

text \<open>
  \<^verbatim>\<open>if (!o.k) o.k = d\<close>: a property that is missing or falsy is set to the default; a
  truthy one is left alone. Assignment replaces the value of a property the object has,
  in place, and appends a property it does not have.
\<close>

definition fillDefault :: "string \<Rightarrow> json \<Rightarrow> ProjectData \<Rightarrow> ProjectData" where
  "fillDefault k d ps = (if \<not> truthyProp (map_of ps k) then AList.update k d ps else ps)"

text \<open>
  Lines 14 to 19 of \<^verbatim>\<open>getInitialData\<close> and lines 106 to 111 of \<^verbatim>\<open>importProject\<close>: the same
  six statements, in the same order.
\<close>

definition backfill :: "ProjectData \<Rightarrow> ProjectData" where
  "backfill ps =
     fillDefault ''abstract'' (JStr ''<p>Abstrak belum dibuat.</p>'')
       (fillDefault ''preface'' (JStr ''<p>Kata Pengantar belum dibuat.</p>'')
         (fillDefault ''approvalData'' JNull
           (fillDefault ''statementPageData'' JNull
             (fillDefault ''appendices'' (JArr [])
               (fillDefault ''bibliography'' (JArr []) ps)))))"

text \<open>
  The test \<^verbatim>\<open>v.k && v.k1 && ...\<close> on a parsed value, and the object it lets through. Reading
  the first property of \<^verbatim>\<open>null\<close> throws; a string, number, boolean or array has none of the
  properties this file reads, so the test is false on it; on an object the test holds
  when every property read is truthy.
\<close>

definition accepted :: "string \<Rightarrow> string list \<Rightarrow> json \<Rightarrow> error + ProjectData option" where
  "accepted k ks v =
     (case v of
        JNull \<Rightarrow> Inl (TypeError k)
      | JObj ps \<Rightarrow> Inr (if list_all (\<lambda>k'. truthyProp (map_of ps k')) (k # ks) then Some ps else None)
      | _ \<Rightarrow> Inr None)"

section \<open>Loading the initial document\<close>

text \<open>
  The \<^verbatim>\<open>try\<close> block of \<^verbatim>\<open>getInitialData\<close>. \<open>initialProjectData\<close> is the constant of
  \<^verbatim>\<open>src/data/initialProject\<close>, a parameter here. An empty string in the slot is falsy and
  is not parsed.
\<close>

definition getInitialData_try ::
    "platform \<Rightarrow> ProjectData \<Rightarrow> (string \<rightharpoonup> string) \<Rightarrow> error + ProjectData option" where
  "getInitialData_try P initialProjectData ls =
     (case ls storageKey of
        None \<Rightarrow> Inr (Some initialProjectData)
      | Some savedProject \<Rightarrow>
          if savedProject = [] then Inr (Some initialProjectData)
          else
            (case JSON_parse P savedProject of
               Inl m \<Rightarrow> Inl (SyntaxError m)
             | Inr parsedProject \<Rightarrow>
                 (case accepted ''title'' [''authorInfo''] parsedProject of
                    Inl e \<Rightarrow> Inl e
                  | Inr (Some ps) \<Rightarrow> Inr (Some (backfill ps))
                  | Inr None \<Rightarrow> Inr (Some initialProjectData))))"

text \<open>
  \<^verbatim>\<open>getInitialData\<close>: the \<^verbatim>\<open>catch\<close> logs the error and returns the default. The result is
  the value returned (\<^verbatim>\<open>ProjectData | null\<close>) and the lines logged.
\<close>

definition getInitialData ::
    "platform \<Rightarrow> ProjectData \<Rightarrow> (string \<rightharpoonup> string) \<Rightarrow> ProjectData option \<times> (string \<times> error) list" where
  "getInitialData P initialProjectData ls =
     (case getInitialData_try P initialProjectData ls of
        Inr r \<Rightarrow> (r, [])
      | Inl e \<Rightarrow>
          (Some initialProjectData,
           [(''Failed to load project from localStorage, using initial data:'', e)]))"

section \<open>State transitions and the persistence effect\<close>

text \<open>
  The body of the \<^verbatim>\<open>useEffect\<close> whose dependency is \<^verbatim>\<open>projectData\<close> (lines 55 to 61).
\<close>

definition persistEffect :: "platform \<Rightarrow> state \<Rightarrow> state" where
  "persistEffect P w =
     (case projectData w of
        Some d \<Rightarrow> setItem storageKey (JSON_stringify P 0 (JObj d)) w
      | None \<Rightarrow> removeItem storageKey w)"

text \<open>
  What a caller hands to the store as a document: the very object that is the active
  document at that moment, or another object, with its content. React compares the new
  state with the old one by identity (\<^verbatim>\<open>Object.is\<close>), and identity matters only against
  the object held now. An object is not changed once it has been handed over; the source
  itself changes a parsed object only before it hands it over.
\<close>

datatype handed = TheCurrentObject | AnotherObject ProjectData

text \<open>
  \<^verbatim>\<open>setProjectData(v)\<close> changes nothing by itself: it leaves the new value (\<open>None\<close> for
  \<^verbatim>\<open>null\<close>) for the next render. A function of the provider therefore returns the state as
  its direct effects leave it, and the argument of its last call of \<^verbatim>\<open>setProjectData\<close>, if
  it made one.
\<close>

type_synonym pending = "handed option option"

definition setProjectData :: "handed option \<Rightarrow> state \<Rightarrow> state \<times> pending" where
  "setProjectData v w = (w, Some v)"

text \<open>
  The render that follows, and its commit. With no call pending, or when the value left
  is the value held (\<^verbatim>\<open>null\<close> for \<^verbatim>\<open>null\<close>, or the same object), the state stays and the
  effect, whose dependency has not changed, does not run. Otherwise the state takes the
  new value and the effect runs once.
\<close>

definition render :: "platform \<Rightarrow> state \<times> pending \<Rightarrow> state" where
  "render P x =
     (case snd x of
        None \<Rightarrow> fst x
      | Some None \<Rightarrow>
          if projectData (fst x) = None then fst x
          else persistEffect P ((fst x)\<lparr>projectData := None\<rparr>)
      | Some (Some TheCurrentObject) \<Rightarrow> fst x
      | Some (Some (AnotherObject d)) \<Rightarrow> persistEffect P ((fst x)\<lparr>projectData := Some d\<rparr>))"

text \<open>
  Mounting the provider: \<^verbatim>\<open>useState(getInitialData)\<close>, both flags false, and the effect
  runs after the first render. \<open>ls\<close> is the content of \<^verbatim>\<open>localStorage\<close> at that moment.
\<close>

definition mount :: "platform \<Rightarrow> ProjectData \<Rightarrow> (string \<rightharpoonup> string) \<Rightarrow> state" where
  "mount P initialProjectData ls =
     persistEffect P
       \<lparr>projectData = fst (getInitialData P initialProjectData ls),
        isCreatingProject = False,
        isHumanizingCooldown = False,
        localStorage = ls,
        alerts = [],
        confirms = [],
        console = snd (getInitialData P initialProjectData ls),
        downloads = [],
        requests = [],
        now = 0,
        timers = []\<rparr>"

text \<open>
  Each function of the provider that calls \<^verbatim>\<open>setProjectData\<close> comes twice: its body
  (\<open>_handler\<close>), and, under the name of the source, the call followed by the render that
  commits it, when nothing else happens before that render.
\<close>

definition onProjectUpdate_handler :: "handed \<Rightarrow> state \<Rightarrow> state \<times> pending" where
  "onProjectUpdate_handler newProjectData w = setProjectData (Some newProjectData) w"

definition onProjectUpdate :: "platform \<Rightarrow> handed \<Rightarrow> state \<Rightarrow> state" where
  "onProjectUpdate P newProjectData w = render P (onProjectUpdate_handler newProjectData w)"

definition loadProject_handler :: "handed \<Rightarrow> state \<Rightarrow> state \<times> pending" where
  "loadProject_handler data w = setProjectData (Some data) w"

definition loadProject :: "platform \<Rightarrow> handed \<Rightarrow> state \<Rightarrow> state" where
  "loadProject P data w = render P (loadProject_handler data w)"

text \<open>
  \<^verbatim>\<open>window.confirm(q)\<close> shows the question and returns the user's answer; the answer is the
  parameter \<open>confirm\<close> of the operations that ask.
\<close>

definition ask :: "string \<Rightarrow> state \<Rightarrow> state" where
  "ask q w = w\<lparr>confirms := confirms w @ [q]\<rparr>"

definition newProjectQuestion :: string where
  "newProjectQuestion =
     ''Apakah Anda yakin ingin memulai proyek baru? Semua progres akan dihapus.''"

definition startNewProject_handler :: "(string \<Rightarrow> bool) \<Rightarrow> state \<Rightarrow> state \<times> pending" where
  "startNewProject_handler confirm w =
     (if confirm newProjectQuestion
      then setProjectData None (removeItem storageKey (ask newProjectQuestion w))
      else (ask newProjectQuestion w, None))"

definition startNewProject :: "platform \<Rightarrow> (string \<Rightarrow> bool) \<Rightarrow> state \<Rightarrow> state" where
  "startNewProject P confirm w = render P (startNewProject_handler confirm w)"

section \<open>Creating a project\<close>

text \<open>
  \<^verbatim>\<open>createProject\<close> is asynchronous. Up to the \<^verbatim>\<open>await\<close> it sets the flag and calls the
  generation service with the form's title, level and remaining fields
  (\<open>createProject_call\<close>). When the service settles, with a document or with an error, the
  rest runs (\<open>createProject_settle\<close>): \<^verbatim>\<open>try\<close>, \<^verbatim>\<open>catch\<close> and \<^verbatim>\<open>finally\<close>. Other operations
  may run in between.
\<close>

definition createProject_call :: "ProjectData \<Rightarrow> state \<Rightarrow> state" where
  "createProject_call formData w =
     w\<lparr>isCreatingProject := True,
       requests := requests w @
         [(filter (\<lambda>(k, v). k \<noteq> ''title'' \<and> k \<noteq> ''academicLevel'') formData,
           map_of formData ''title'', map_of formData ''academicLevel'')]\<rparr>"

definition createFailedPrefix :: string where
  "createFailedPrefix = ''Gagal membuat proyek baru. Error: ''"

text \<open>
  The object the service resolves with is one the service has built: another object than
  the active document. The \<^verbatim>\<open>finally\<close> clears the flag after either branch.
\<close>

definition createProject_settle_handler ::
    "platform \<Rightarrow> error + ProjectData \<Rightarrow> state \<Rightarrow> state \<times> pending" where
  "createProject_settle_handler P r w =
     (case (case r of
              Inr newProject \<Rightarrow> setProjectData (Some (AnotherObject newProject)) w
            | Inl e \<Rightarrow>
                (alert (createFailedPrefix @ message P e)
                   (console_error ''Failed to initialize new project:'' e w), None)) of
        (w', q) \<Rightarrow> (w'\<lparr>isCreatingProject := False\<rparr>, q))"

definition createProject_settle :: "platform \<Rightarrow> error + ProjectData \<Rightarrow> state \<Rightarrow> state" where
  "createProject_settle P r w = render P (createProject_settle_handler P r w)"

text \<open>A creation with nothing in between.\<close>

definition createProject :: "platform \<Rightarrow> ProjectData \<Rightarrow> error + ProjectData \<Rightarrow> state \<Rightarrow> state" where
  "createProject P formData r w = createProject_settle P r (createProject_call formData w)"

section \<open>The cooldown\<close>

text \<open>
  \<^verbatim>\<open>startHumanizingCooldown\<close> sets the flag and sets a timer of 15000 ms. No timer of this
  file is ever cleared.
\<close>

definition startHumanizingCooldown :: "state \<Rightarrow> state" where
  "startHumanizingCooldown w =
     w\<lparr>isHumanizingCooldown := True, timers := timers w @ [now w + 15000]\<rparr>"

text \<open>
  Time passing: the clock moves on by \<open>dt\<close> milliseconds and every callback whose deadline
  is reached runs, at its deadline. Each callback sets the flag to false.
\<close>

definition advance :: "nat \<Rightarrow> state \<Rightarrow> state" where
  "advance dt w =
     w\<lparr>now := now w + dt,
       timers := filter (\<lambda>d. now w + dt < d) (timers w),
       isHumanizingCooldown :=
         (if list_ex (\<lambda>d. d \<le> now w + dt) (timers w) then False else isHumanizingCooldown w)\<rparr>"

section \<open>Import\<close>

definition importFailedPrefix :: string where
  "importFailedPrefix =
     ''Gagal mengimpor proyek. Pastikan file JSON valid dan berasal dari aplikasi ini. Error: ''"

definition invalidStructure :: error where
  "invalidStructure = Error ''Struktur file tidak valid atau file rusak.''"

text \<open>
  \<^verbatim>\<open>performImport\<close>. The object handed over is the one \<^verbatim>\<open>JSON.parse\<close> has just built, with
  its fields backfilled: never the active document.
\<close>

definition performImport_try :: "platform \<Rightarrow> string \<Rightarrow> state \<Rightarrow> error + state \<times> pending" where
  "performImport_try P fileContent w =
     (case JSON_parse P fileContent of
        Inl m \<Rightarrow> Inl (SyntaxError m)
      | Inr importedData \<Rightarrow>
          (case accepted ''title'' [''outline'', ''chapters'', ''authorInfo''] importedData of
             Inl e \<Rightarrow> Inl e
           | Inr (Some ps) \<Rightarrow>
               Inr (case setProjectData (Some (AnotherObject (backfill ps))) w of
                      (w', q) \<Rightarrow> (alert ''Proyek berhasil diimpor!'' w', q))
           | Inr None \<Rightarrow> Inl invalidStructure))"

definition performImport :: "platform \<Rightarrow> string \<Rightarrow> state \<Rightarrow> state \<times> pending" where
  "performImport P fileContent w =
     (case performImport_try P fileContent w of
        Inr x \<Rightarrow> x
      | Inl e \<Rightarrow>
          (alert (importFailedPrefix @ message P e)
             (console_error ''Failed to import project:'' e w), None))"

definition importQuestion :: string where
  "importQuestion =
     ''Mengimpor proyek baru akan menimpa pekerjaan Anda saat ini. Lanjutkan?''"

text \<open>
  \<^verbatim>\<open>importProject\<close> reads \<^verbatim>\<open>projectData\<close> as the last render left it.
\<close>

definition importProject_handler ::
    "platform \<Rightarrow> (string \<Rightarrow> bool) \<Rightarrow> string \<Rightarrow> state \<Rightarrow> state \<times> pending" where
  "importProject_handler P confirm fileContent w =
     (case projectData w of
        Some d \<Rightarrow>
          if confirm importQuestion then performImport P fileContent (ask importQuestion w)
          else (ask importQuestion w, None)
      | None \<Rightarrow> performImport P fileContent w)"

definition importProject :: "platform \<Rightarrow> (string \<Rightarrow> bool) \<Rightarrow> string \<Rightarrow> state \<Rightarrow> state" where
  "importProject P confirm fileContent w = render P (importProject_handler P confirm fileContent w)"

section \<open>Export\<close>

text \<open>
  Strings are lists of 8-bit characters here: a title is modelled when its UTF-16 code
  units are below 256. \<^verbatim>\<open>toLowerCase\<close> on such a string maps A to Z, and the capital
  letters of Latin-1 (192 to 222, without the multiplication sign 215), 32 places up.
\<close>

definition lowerChar :: "char \<Rightarrow> char" where
  "lowerChar c =
     (let n = (of_char c :: nat)
      in if (65 \<le> n \<and> n \<le> 90) \<or> (192 \<le> n \<and> n \<le> 222 \<and> n \<noteq> 215) then char_of (n + 32) else c)"

definition toLowerCase :: "string \<Rightarrow> string" where
  "toLowerCase s = map lowerChar s"

text \<open>The character class \<^verbatim>\<open>[a-z0-9]\<close>.\<close>

definition isAlnum :: "char \<Rightarrow> bool" where
  "isAlnum c =
     (let n = (of_char c :: nat) in (97 \<le> n \<and> n \<le> 122) \<or> (48 \<le> n \<and> n \<le> 57))"

text \<open>
  \<^verbatim>\<open>.replace(/[^a-z0-9]+/g, '-')\<close>: from left to right, a character of the class is copied;
  at any other character the expression matches greedily, up to the next character of the
  class, and the match becomes one hyphen.
\<close>

function replaceRuns :: "string \<Rightarrow> string" where
  "replaceRuns [] = []"
| "replaceRuns (c # cs) =
     (if isAlnum c then c # replaceRuns cs
      else CHR ''-'' # replaceRuns (dropWhile (\<lambda>x. \<not> isAlnum x) cs))"
  by pat_completeness auto
termination
  by (relation "measure length") (auto simp: length_dropWhile_le less_Suc_eq_le)

text \<open>
  \<^verbatim>\<open>.replace(/(^-|-$)/g, '')\<close>: the first alternative matches a hyphen at index 0 only, the
  second a hyphen at the last index only; each match is deleted.
\<close>

definition stripEdges :: "string \<Rightarrow> string" where
  "stripEdges s =
     (let s1 = (case s of [] \<Rightarrow> [] | c # cs \<Rightarrow> if c = CHR ''-'' then cs else c # cs)
      in if s1 \<noteq> [] \<and> last s1 = CHR ''-'' then butlast s1 else s1)"

definition sanitizedTitle :: "string \<Rightarrow> string" where
  "sanitizedTitle title = stripEdges (replaceRuns (toLowerCase title))"

definition fileName :: "string \<Rightarrow> string" where
  "fileName title =
     ''proyek-akademik-''
       @ (if sanitizedTitle title = [] then ''tanpa-judul'' else sanitizedTitle title)
       @ ''.json''"

text \<open>
  The \<^verbatim>\<open>try\<close> block of \<^verbatim>\<open>exportProject\<close>. \<^verbatim>\<open>projectData.title.toLowerCase()\<close> throws unless
  the title is a string; it is evaluated before anything is offered for download. The
  download is recorded as the file name and the text.
\<close>

definition exportProject_try :: "platform \<Rightarrow> ProjectData \<Rightarrow> state \<Rightarrow> error + state" where
  "exportProject_try P d w =
     (let jsonString = JSON_stringify P 2 (JObj d)
      in case map_of d ''title'' of
           Some (JStr title) \<Rightarrow> Inr (w\<lparr>downloads := downloads w @ [(fileName title, jsonString)]\<rparr>)
         | _ \<Rightarrow> Inl (TypeError ''toLowerCase''))"

definition exportProject :: "platform \<Rightarrow> state \<Rightarrow> state" where
  "exportProject P w =
     (case projectData w of
        None \<Rightarrow> alert ''Tidak ada proyek aktif untuk diekspor.'' w
      | Some d \<Rightarrow>
          (case exportProject_try P d w of
             Inr w' \<Rightarrow> w'
           | Inl e \<Rightarrow>
               alert ''Gagal mengekspor proyek.'' (console_error ''Failed to export project:'' e w)))"

section \<open>Everything that can happen to the store\<close>







section \<open>Vocabulary of the statements, and sample inputs\<close>

text \<open>A value that is an object with a truthy property \<open>k\<close>.\<close>

definition hasTruthy :: "json \<Rightarrow> string \<Rightarrow> bool" where
  "hasTruthy v k = (case v of JObj ps \<Rightarrow> truthyProp (map_of ps k) | _ \<Rightarrow> False)"

text \<open>
  A platform cut down to one value: it serializes that value to the two given texts (without
  and with indentation) and parses these two texts back to it; every other text is
  unparsable for it.
\<close>

definition knownPlatform :: "string \<Rightarrow> string \<Rightarrow> json \<Rightarrow> platform" where
  "knownPlatform short pretty v =
     \<lparr>JSON_parse = (\<lambda>s. if s = short \<or> s = pretty then Inr v else Inl ''Unexpected token''),
      JSON_stringify = (\<lambda>n x. if x = v then (if n = 0 then short else pretty) else ''null''),
      typeErrorMessage = (\<lambda>k. ''Cannot read properties of null'')\<rparr>"

text \<open>
  A document with every field present, given its title and its preface, and the texts
  \<^verbatim>\<open>JSON.stringify\<close> gives for it (for a title and a preface that need no escaping).
\<close>

definition sampleDocument :: "string \<Rightarrow> string \<Rightarrow> ProjectData" where
  "sampleDocument title preface =
     [(''title'', JStr title),
      (''authorInfo'', JObj [(''name'', JStr ''Sari'')]),
      (''outline'', JArr []),
      (''chapters'', JArr []),
      (''bibliography'', JArr []),
      (''appendices'', JArr []),
      (''statementPageData'', JNull),
      (''approvalData'', JNull),
      (''preface'', JStr preface),
      (''abstract'', JStr ''<p>Abstrak</p>'')]"

definition sampleShort :: "string \<Rightarrow> string \<Rightarrow> string" where
  \<open>sampleShort title preface =
     ''{"title":"'' @ title @ ''","authorInfo":{"name":"Sari"},"outline":[],"chapters":[],''
     @ ''"bibliography":[],"appendices":[],"statementPageData":null,"approvalData":null,''
     @ ''"preface":"'' @ preface @ ''","abstract":"<p>Abstrak</p>"}''\<close>

definition samplePretty :: "string \<Rightarrow> string \<Rightarrow> string" where
  \<open>samplePretty title preface =
     ''{\<newline>  "title": "'' @ title @ ''",\<newline>  "authorInfo": {\<newline>    "name": "Sari"\<newline>  },\<newline>''
     @ ''  "outline": [],\<newline>  "chapters": [],\<newline>  "bibliography": [],\<newline>  "appendices": [],\<newline>''
     @ ''  "statementPageData": null,\<newline>  "approvalData": null,\<newline>''
     @ ''  "preface": "'' @ preface @ ''",\<newline>  "abstract": "<p>Abstrak</p>"\<newline>}''\<close>

definition samplePlatform :: "string \<Rightarrow> string \<Rightarrow> platform" where
  "samplePlatform title preface =
     knownPlatform (sampleShort title preface) (samplePretty title preface)
       (JObj (sampleDocument title preface))"

text \<open>
  A state in which the sample is the active document, the slot holds its serialization and
  nothing else has happened yet.
\<close>

definition sampleState :: "string \<Rightarrow> string \<Rightarrow> state" where
  "sampleState title preface =
     \<lparr>projectData = Some (sampleDocument title preface),
      isCreatingProject = False,
      isHumanizingCooldown = False,
      localStorage = [storageKey \<mapsto> sampleShort title preface],
      alerts = [],
      confirms = [],
      console = [],
      downloads = [],
      requests = [],
      now = 0,
      timers = []\<rparr>"

text \<open>
  The optional fields and their defaults, as the six statements of the backfill name them.
\<close>

definition optionalDefaults :: "(string \<times> json) list" where
  "optionalDefaults =
     [(''bibliography'', JArr []),
      (''appendices'', JArr []),
      (''statementPageData'', JNull),
      (''approvalData'', JNull),
      (''preface'', JStr ''<p>Kata Pengantar belum dibuat.</p>''),
      (''abstract'', JStr ''<p>Abstrak belum dibuat.</p>'')]"

text \<open>
  A document on which the backfill has nothing to do: each optional field is truthy, or is
  already its default.
\<close>

definition complete :: "ProjectData \<Rightarrow> bool" where
  "complete ps = list_all (\<lambda>(k, d). truthyProp (map_of ps k) \<or> map_of ps k = Some d) optionalDefaults"

text \<open>The store proper is the same in two states: the three cells and the slot.\<close>

definition sameStore :: "state \<Rightarrow> state \<Rightarrow> bool" where
  "sameStore w w' \<longleftrightarrow>
     projectData w' = projectData w \<and> isCreatingProject w' = isCreatingProject w \<and>
     isHumanizingCooldown w' = isHumanizingCooldown w \<and> localStorage w' = localStorage w"

text \<open>The test of \<^verbatim>\<open>performImport\<close>: all four required properties are truthy.\<close>

definition importRequired :: "json \<Rightarrow> bool" where
  "importRequired v \<longleftrightarrow>
     hasTruthy v ''title'' \<and> hasTruthy v ''outline'' \<and> hasTruthy v ''chapters'' \<and>
     hasTruthy v ''authorInfo''"

text \<open>An object without \<^verbatim>\<open>chapters\<close>, its text, and a platform that knows the two.\<close>

definition noChapters :: ProjectData where
  "noChapters = [(''title'', JStr ''T''), (''outline'', JArr []), (''authorInfo'', JObj [])]"

definition noChaptersText :: string where
  \<open>noChaptersText = ''{"title":"T","outline":[],"authorInfo":{}}''\<close>

definition noChaptersPlatform :: platform where
  "noChaptersPlatform = knownPlatform noChaptersText noChaptersText (JObj noChapters)"

text \<open>
  The slug as the specification words it: the title in lower case, every run of characters
  outside \<^verbatim>\<open>[a-z0-9]\<close> replaced by a single hyphen (\<open>inRun\<close> tells that the run has its
  hyphen already), and all leading and trailing hyphens trimmed.
\<close>

fun spec_hyphenate :: "bool \<Rightarrow> string \<Rightarrow> string" where
  "spec_hyphenate inRun [] = []"
| "spec_hyphenate inRun (c # cs) =
     (if isAlnum c then c # spec_hyphenate False cs
      else if inRun then spec_hyphenate True cs
      else CHR ''-'' # spec_hyphenate True cs)"

definition spec_trim :: "string \<Rightarrow> string" where
  "spec_trim s = rev (dropWhile (\<lambda>c. c = CHR ''-'') (rev (dropWhile (\<lambda>c. c = CHR ''-'') s)))"

definition spec_slug :: "string \<Rightarrow> string" where
  "spec_slug title = spec_trim (spec_hyphenate False (toLowerCase title))"

text \<open>No hyphen is followed by a hyphen.\<close>

fun noDouble :: "string \<Rightarrow> bool" where
  "noDouble (a # b # r) = (\<not> (a = CHR ''-'' \<and> b = CHR ''-'') \<and> noDouble (b # r))"
| "noDouble s = True"

section \<open>Properties\<close>

lemmas op_defs = setProjectData_def render_def persistEffect_def setItem_def removeItem_def
  alert_def console_error_def ask_def

lemmas startNewProject_defs = startNewProject_def startNewProject_handler_def

lemmas importProject_defs = importProject_def importProject_handler_def

lemmas createProject_settle_defs = createProject_settle_def createProject_settle_handler_def

lemmas sample_defs = sampleState_def samplePlatform_def knownPlatform_def sampleDocument_def
  sampleShort_def samplePretty_def mount_def getInitialData_def getInitialData_try_def

subsection \<open>The clock\<close>

text \<open>Letting time pass in two steps is letting it pass in one.\<close>

lemma advance_advance: "advance b (advance a w) = advance (a + b) w"
proof -
  let ?ts = "timers w" and ?n = "now w"
  have f: "filter (\<lambda>x. ?n + a < x \<and> ?n + (a + b) < x) ?ts = filter (\<lambda>x. ?n + (a + b) < x) ?ts"
    by (rule filter_cong) auto
  have e: "(\<exists>d\<in>set ?ts. d \<le> ?n + a) \<or> (\<exists>d\<in>set ?ts. ?n + a < d \<and> d \<le> ?n + (a + b))
           \<longleftrightarrow> (\<exists>d\<in>set ?ts. d \<le> ?n + (a + b))"
  proof
    assume "(\<exists>d\<in>set ?ts. d \<le> ?n + a) \<or> (\<exists>d\<in>set ?ts. ?n + a < d \<and> d \<le> ?n + (a + b))"
    then show "\<exists>d\<in>set ?ts. d \<le> ?n + (a + b)"
    proof
      assume "\<exists>d\<in>set ?ts. d \<le> ?n + a"
      then obtain d where "d \<in> set ?ts" "d \<le> ?n + a" by blast
      then have "d \<le> ?n + (a + b)" by arith
      with \<open>d \<in> set ?ts\<close> show ?thesis by blast
    next
      assume "\<exists>d\<in>set ?ts. ?n + a < d \<and> d \<le> ?n + (a + b)"
      then show ?thesis by blast
    qed
  next
    assume "\<exists>d\<in>set ?ts. d \<le> ?n + (a + b)"
    then obtain d where d: "d \<in> set ?ts" "d \<le> ?n + (a + b)" by blast
    show "(\<exists>d\<in>set ?ts. d \<le> ?n + a) \<or> (\<exists>d\<in>set ?ts. ?n + a < d \<and> d \<le> ?n + (a + b))"
    proof (cases "d \<le> ?n + a")
      case True
      with d show ?thesis by blast
    next
      case False
      then have "?n + a < d" by simp
      with d show ?thesis by blast
    qed
  qed
  have g: "isHumanizingCooldown (advance b (advance a w)) = isHumanizingCooldown (advance (a + b) w)"
    using e by (simp add: advance_def list_ex_iff add.assoc) blast
  show ?thesis
    using g by (simp add: advance_def f add.assoc)
qed

subsection \<open>Persistence\<close>









subsection \<open>Loading\<close>

text \<open>
  C2. \<^verbatim>\<open>getInitialData\<close> returns the default document when the slot is empty and when its
  content does not parse; the parse failure thrown inside is caught and logged, as is every
  other failure of the \<^verbatim>\<open>try\<close> block; and the value returned is never \<^verbatim>\<open>null\<close>.
\<close>

theorem getInitialData_default:
  "(ls storageKey = None \<longrightarrow> getInitialData P initialProjectData ls = (Some initialProjectData, [])) \<and>
   (\<forall>s m. ls storageKey = Some s \<and> JSON_parse P s = Inl m \<longrightarrow>
      fst (getInitialData P initialProjectData ls) = Some initialProjectData \<and>
      (s \<noteq> [] \<longrightarrow>
         getInitialData_try P initialProjectData ls = Inl (SyntaxError m) \<and>
         snd (getInitialData P initialProjectData ls) =
           [(''Failed to load project from localStorage, using initial data:'', SyntaxError m)])) \<and>
   (\<forall>e. getInitialData_try P initialProjectData ls = Inl e \<longrightarrow>
      getInitialData P initialProjectData ls =
        (Some initialProjectData,
         [(''Failed to load project from localStorage, using initial data:'', e)])) \<and>
   fst (getInitialData P initialProjectData ls) \<noteq> None"
  by (auto simp: getInitialData_def getInitialData_try_def
      split: option.splits sum.splits)

theorem getInitialData_default_witness:
  "getInitialData (samplePlatform ''T'' ''<p>P</p>'') (sampleDocument ''T'' ''<p>P</p>'') Map.empty =
     (Some (sampleDocument ''T'' ''<p>P</p>''), []) \<and>
   JSON_parse (samplePlatform ''T'' ''<p>P</p>'') ''{title:'' = Inl ''Unexpected token'' \<and>
   getInitialData (samplePlatform ''T'' ''<p>P</p>'') (sampleDocument ''T'' ''<p>P</p>'')
       [storageKey \<mapsto> ''{title:''] =
     (Some (sampleDocument ''T'' ''<p>P</p>''),
      [(''Failed to load project from localStorage, using initial data:'',
        SyntaxError ''Unexpected token'')])"
proof -
  let ?P = "samplePlatform ''T'' ''<p>P</p>''" and ?d = "sampleDocument ''T'' ''<p>P</p>''"
  have p: "JSON_parse ?P ''{title:'' = Inl ''Unexpected token''"
    by (simp add: samplePlatform_def knownPlatform_def sampleShort_def samplePretty_def)
  have "getInitialData ?P ?d Map.empty = (Some ?d, [])"
    using getInitialData_default [of Map.empty ?P ?d] by simp
  moreover have "getInitialData ?P ?d [storageKey \<mapsto> ''{title:''] =
     (Some ?d, [(''Failed to load project from localStorage, using initial data:'',
        SyntaxError ''Unexpected token'')])"
    using getInitialData_default [of "[storageKey \<mapsto> ''{title:'']" ?P ?d] p
    by (simp add: prod_eq_iff)
  ultimately show ?thesis using p by simp
qed

text \<open>
  C10. When the slot holds a text that parses, a value without a truthy \<^verbatim>\<open>title\<close> or without
  a truthy \<^verbatim>\<open>authorInfo\<close> (an empty title, say) is discarded for the default document; the
  stored document is taken, with its fields backfilled, when both are truthy.
\<close>

theorem getInitialData_needs_title_and_author:
  assumes "ls storageKey = Some s" and "JSON_parse P s = Inr v"
  shows "(\<not> (hasTruthy v ''title'' \<and> hasTruthy v ''authorInfo'') \<longrightarrow>
            fst (getInitialData P initialProjectData ls) = Some initialProjectData) \<and>
         (s \<noteq> [] \<and> hasTruthy v ''title'' \<and> hasTruthy v ''authorInfo'' \<longrightarrow>
            (\<exists>ps. v = JObj ps \<and> getInitialData P initialProjectData ls = (Some (backfill ps), [])))"
  using assms
  by (auto simp: getInitialData_def getInitialData_try_def accepted_def hasTruthy_def
      split: option.splits sum.splits json.splits)

theorem getInitialData_needs_title_and_author_witness:
  "[storageKey \<mapsto> sampleShort [] ''<p>P</p>''] storageKey = Some (sampleShort [] ''<p>P</p>'') \<and>
   JSON_parse (samplePlatform [] ''<p>P</p>'') (sampleShort [] ''<p>P</p>'') =
     Inr (JObj (sampleDocument [] ''<p>P</p>'')) \<and>
   \<not> hasTruthy (JObj (sampleDocument [] ''<p>P</p>'')) ''title'' \<and>
   fst (getInitialData (samplePlatform [] ''<p>P</p>'') [(''title'', JStr ''Proyek Awal'')]
          [storageKey \<mapsto> sampleShort [] ''<p>P</p>'']) = Some [(''title'', JStr ''Proyek Awal'')]"
proof -
  let ?P = "samplePlatform [] ''<p>P</p>''" and ?s = "sampleShort [] ''<p>P</p>''"
  let ?v = "JObj (sampleDocument [] ''<p>P</p>'')"
  have a: "[storageKey \<mapsto> ?s] storageKey = Some ?s" by simp
  have b: "JSON_parse ?P ?s = Inr ?v"
    by (simp add: samplePlatform_def knownPlatform_def)
  have c: "\<not> hasTruthy ?v ''title''"
    by (simp add: hasTruthy_def sampleDocument_def truthyProp_def)
  from getInitialData_needs_title_and_author
    [of "[storageKey \<mapsto> ?s]" ?s ?P ?v "[(''title'', JStr ''Proyek Awal'')]", OF a b] c
  have "fst (getInitialData ?P [(''title'', JStr ''Proyek Awal'')] [storageKey \<mapsto> ?s])
          = Some [(''title'', JStr ''Proyek Awal'')]"
    by simp
  with a b c show ?thesis by simp
qed

subsection \<open>Reset\<close>

text \<open>
  C7. \<^verbatim>\<open>startNewProject\<close> asks its question. On a yes the slot no longer holds the key and
  there is no active document; on a no nothing but the record of the question changes.
\<close>

theorem startNewProject_clears:
  "confirms (startNewProject P confirm w) = confirms w @ [newProjectQuestion] \<and>
   (confirm newProjectQuestion \<longrightarrow>
      localStorage (startNewProject P confirm w) storageKey = None \<and>
      projectData (startNewProject P confirm w) = None) \<and>
   (\<not> confirm newProjectQuestion \<longrightarrow>
      startNewProject P confirm w = w\<lparr>confirms := confirms w @ [newProjectQuestion]\<rparr>)"
  by (simp add: startNewProject_defs op_defs)

theorem startNewProject_clears_witness:
  "projectData (sampleState ''Analisis Data!!'' ''<p>P</p>'') \<noteq> None \<and>
   localStorage (sampleState ''Analisis Data!!'' ''<p>P</p>'') storageKey \<noteq> None \<and>
   localStorage (startNewProject (samplePlatform ''Analisis Data!!'' ''<p>P</p>'') (\<lambda>q. True)
      (sampleState ''Analisis Data!!'' ''<p>P</p>'')) storageKey = None \<and>
   projectData (startNewProject (samplePlatform ''Analisis Data!!'' ''<p>P</p>'') (\<lambda>q. True)
      (sampleState ''Analisis Data!!'' ''<p>P</p>'')) = None \<and>
   projectData (startNewProject (samplePlatform ''Analisis Data!!'' ''<p>P</p>'') (\<lambda>q. False)
      (sampleState ''Analisis Data!!'' ''<p>P</p>'')) =
   projectData (sampleState ''Analisis Data!!'' ''<p>P</p>'')"
  using startNewProject_clears [of "samplePlatform ''Analisis Data!!'' ''<p>P</p>''" "\<lambda>q. True"
      "sampleState ''Analisis Data!!'' ''<p>P</p>''"]
    startNewProject_clears [of "samplePlatform ''Analisis Data!!'' ''<p>P</p>''" "\<lambda>q. False"
      "sampleState ''Analisis Data!!'' ''<p>P</p>''"]
  by (simp add: sample_defs op_defs)

subsection \<open>Creation\<close>

text \<open>
  C9. The call sets the creating flag and leaves the document alone. When the service
  settles, with a document or with an error, the flag is false afterwards. When it settles
  with an error, the active document and the slot are what they were, the error is logged,
  and the message shown is \<^verbatim>\<open>Gagal membuat proyek baru. Error: \<close> followed by the error's
  own message: the text an \<^verbatim>\<open>Error\<close> was created with, the text of a \<^verbatim>\<open>SyntaxError\<close>, the
  engine's wording of a \<^verbatim>\<open>TypeError\<close>. When it settles with a document, that document
  becomes the active one.
\<close>

theorem createProject_flag:
  "isCreatingProject (createProject_call formData w) \<and>
   projectData (createProject_call formData w) = projectData w \<and>
   \<not> isCreatingProject (createProject_settle P r w) \<and>
   \<not> isCreatingProject (createProject P formData r w) \<and>
   projectData (createProject_settle P (Inl e) w) = projectData w \<and>
   localStorage (createProject_settle P (Inl e) w) = localStorage w \<and>
   alerts (createProject_settle P (Inl e) w) = alerts w @ [createFailedPrefix @ message P e] \<and>
   projectData (createProject P formData (Inl e) w) = projectData w \<and>
   alerts (createProject P formData (Inl e) w) = alerts w @ [createFailedPrefix @ message P e] \<and>
   alerts (createProject_settle P (Inl (Error m)) w) =
     alerts w @ [''Gagal membuat proyek baru. Error: '' @ m] \<and>
   alerts (createProject_settle P (Inl (SyntaxError m)) w) =
     alerts w @ [''Gagal membuat proyek baru. Error: '' @ m] \<and>
   alerts (createProject_settle P (Inl (TypeError k)) w) =
     alerts w @ [''Gagal membuat proyek baru. Error: '' @ typeErrorMessage P k] \<and>
   alerts (createProject P formData (Inl (Error m)) w) =
     alerts w @ [''Gagal membuat proyek baru. Error: '' @ m] \<and>
   console (createProject_settle P (Inl e) w) =
     console w @ [(''Failed to initialize new project:'', e)] \<and>
   projectData (createProject_settle P (Inr newProject) w) = Some newProject \<and>
   alerts (createProject_settle P (Inr newProject) w) = alerts w"
  by (cases r)
    (simp_all add: createProject_def createProject_call_def createProject_settle_defs op_defs
      createFailedPrefix_def)

theorem createProject_flag_witness:
  "\<not> isCreatingProject (sampleState ''T'' ''<p>P</p>'') \<and>
   isCreatingProject (createProject_call [(''title'', JStr ''Baru''), (''name'', JStr ''Sari'')]
      (sampleState ''T'' ''<p>P</p>'')) \<and>
   \<not> isCreatingProject (createProject (samplePlatform ''T'' ''<p>P</p>'')
      [(''title'', JStr ''Baru''), (''name'', JStr ''Sari'')] (Inl (Error ''Kuota API habis''))
      (sampleState ''T'' ''<p>P</p>'')) \<and>
   projectData (createProject (samplePlatform ''T'' ''<p>P</p>'')
      [(''title'', JStr ''Baru''), (''name'', JStr ''Sari'')] (Inl (Error ''Kuota API habis''))
      (sampleState ''T'' ''<p>P</p>'')) = Some (sampleDocument ''T'' ''<p>P</p>'') \<and>
   alerts (createProject (samplePlatform ''T'' ''<p>P</p>'')
      [(''title'', JStr ''Baru''), (''name'', JStr ''Sari'')] (Inl (Error ''Kuota API habis''))
      (sampleState ''T'' ''<p>P</p>'')) = [''Gagal membuat proyek baru. Error: Kuota API habis''] \<and>
   \<not> isCreatingProject (createProject (samplePlatform ''T'' ''<p>P</p>'')
      [(''title'', JStr ''Baru''), (''name'', JStr ''Sari'')] (Inr (sampleDocument ''Baru'' ''<p>P</p>''))
      (sampleState ''T'' ''<p>P</p>''))"
proof -
  let ?P = "samplePlatform ''T'' ''<p>P</p>''" and ?w = "sampleState ''T'' ''<p>P</p>''"
  let ?f = "[(''title'', JStr ''Baru''), (''name'', JStr ''Sari'')]"
  have a: "alerts ?w = []" and p: "projectData ?w = Some (sampleDocument ''T'' ''<p>P</p>'')"
    and f: "\<not> isCreatingProject ?w"
    by (simp_all add: sampleState_def)
  from createProject_flag [of ?f ?w ?P "Inl (Error ''Kuota API habis'')" "Error ''Kuota API habis''"
      "''Kuota API habis''"]
    createProject_flag [of ?f ?w ?P "Inr (sampleDocument ''Baru'' ''<p>P</p>'')"]
    a p f
  show ?thesis by simp
qed

subsection \<open>Cooldown\<close>

text \<open>
  C6, as the code has it. \<^verbatim>\<open>startHumanizingCooldown\<close> sets the flag at once. After it, the
  flag is still set \<open>dt\<close> milliseconds later exactly when \<open>dt\<close> is below 15000 and no timer
  that was already pending has come due: with no timer pending, the flag falls exactly at
  15000 ms and not before. A timer set by an earlier call is not cancelled by a later one.
\<close>

theorem cooldown_window:
  "isHumanizingCooldown (startHumanizingCooldown w) \<and>
   (isHumanizingCooldown (advance dt (startHumanizingCooldown w)) \<longleftrightarrow>
      dt < 15000 \<and> (\<forall>d \<in> set (timers w). now w + dt < d)) \<and>
   (timers w = [] \<longrightarrow>
      (isHumanizingCooldown (advance dt (startHumanizingCooldown w)) \<longleftrightarrow> dt < 15000))"
proof -
  have "isHumanizingCooldown (advance dt (startHumanizingCooldown w)) \<longleftrightarrow>
          \<not> (15000 \<le> dt \<or> (\<exists>d \<in> set (timers w). d \<le> now w + dt))"
    by (simp add: startHumanizingCooldown_def advance_def list_ex_iff)
  then have "isHumanizingCooldown (advance dt (startHumanizingCooldown w)) \<longleftrightarrow>
          dt < 15000 \<and> (\<forall>d \<in> set (timers w). now w + dt < d)"
    by (simp add: not_le)
  moreover have "isHumanizingCooldown (startHumanizingCooldown w)"
    by (simp add: startHumanizingCooldown_def)
  ultimately show ?thesis by simp
qed

theorem cooldown_window_witness:
  "timers (sampleState ''T'' ''<p>P</p>'') = [] \<and>
   \<not> isHumanizingCooldown (sampleState ''T'' ''<p>P</p>'') \<and>
   isHumanizingCooldown (startHumanizingCooldown (sampleState ''T'' ''<p>P</p>'')) \<and>
   isHumanizingCooldown (advance 14999 (startHumanizingCooldown (sampleState ''T'' ''<p>P</p>''))) \<and>
   \<not> isHumanizingCooldown (advance 15000 (startHumanizingCooldown (sampleState ''T'' ''<p>P</p>'')))"
proof -
  let ?w = "sampleState ''T'' ''<p>P</p>''"
  have t: "timers ?w = []" and f: "\<not> isHumanizingCooldown ?w"
    by (simp_all add: sample_defs op_defs)
  from cooldown_window [of ?w 14999] cooldown_window [of ?w 15000] t f
  show ?thesis by simp
qed

text \<open>
  The flag does not stay set until 15 seconds after the latest call: a call at 0 ms and a
  second one at 10000 ms, while the flag is set, leave the flag false at 15000 ms, 5000 ms
  after the second call.
\<close>

theorem cooldown_restart_counterexample:
  "now (advance 5000 (startHumanizingCooldown (advance 10000
          (startHumanizingCooldown (sampleState ''T'' ''<p>P</p>''))))) = 15000 \<and>
   now (startHumanizingCooldown (advance 10000
          (startHumanizingCooldown (sampleState ''T'' ''<p>P</p>'')))) = 10000 \<and>
   isHumanizingCooldown (startHumanizingCooldown (advance 10000
          (startHumanizingCooldown (sampleState ''T'' ''<p>P</p>'')))) \<and>
   \<not> isHumanizingCooldown (advance 5000 (startHumanizingCooldown (advance 10000
          (startHumanizingCooldown (sampleState ''T'' ''<p>P</p>'')))))"
  by (simp add: sample_defs op_defs startHumanizingCooldown_def advance_def)

subsection \<open>Facts about the backfill\<close>

lemma map_of_fillDefault:
  "map_of (fillDefault k d ps) k' =
     (if k' = k \<and> \<not> truthyProp (map_of ps k) then Some d else map_of ps k')"
  by (simp add: fillDefault_def update_conv')

lemma fillDefault_settled:
  "truthyProp (map_of ps k) \<or> map_of ps k = Some d \<Longrightarrow> fillDefault k d ps = ps"
  by (auto simp: fillDefault_def update_triv)

lemma map_of_backfill:
  "map_of (backfill ps) k =
     (case map_of optionalDefaults k of
        None \<Rightarrow> map_of ps k
      | Some d \<Rightarrow> if truthyProp (map_of ps k) then map_of ps k else Some d)"
  by (simp add: backfill_def map_of_fillDefault optionalDefaults_def)

lemma complete_backfill_id: "complete ps \<Longrightarrow> backfill ps = ps"
  by (simp add: complete_def optionalDefaults_def backfill_def fillDefault_settled)

lemma complete_backfill: "complete (backfill ps)"
  by (simp add: complete_def optionalDefaults_def map_of_backfill truthyProp_def
      split: option.splits)

subsection \<open>Import\<close>

lemma accepted_import:
  "accepted ''title'' [''outline'', ''chapters'', ''authorInfo''] v =
     (case v of
        JNull \<Rightarrow> Inl (TypeError ''title'')
      | JObj ps \<Rightarrow> Inr (if importRequired v then Some ps else None)
      | _ \<Rightarrow> Inr None)"
  by (simp add: accepted_def importRequired_def hasTruthy_def split: json.splits)

lemma importRequired_obj: "importRequired v \<Longrightarrow> \<exists>ps. v = JObj ps"
  by (cases v) (simp_all add: importRequired_def hasTruthy_def)

lemma performImport_fails:
  "JSON_parse P fileContent = Inl m \<Longrightarrow>
     performImport P fileContent w =
       (alert (importFailedPrefix @ m)
          (console_error ''Failed to import project:'' (SyntaxError m) w), None)"
  by (simp add: performImport_def performImport_try_def)

lemma performImport_rejects:
  "JSON_parse P fileContent = Inr v \<Longrightarrow> \<not> importRequired v \<Longrightarrow>
     performImport P fileContent w =
       (alert (importFailedPrefix @ message P (if v = JNull then TypeError ''title'' else invalidStructure))
          (console_error ''Failed to import project:''
             (if v = JNull then TypeError ''title'' else invalidStructure) w), None)"
  by (cases v) (simp_all add: performImport_def performImport_try_def accepted_import)

lemma performImport_accepts:
  "JSON_parse P fileContent = Inr (JObj ps) \<Longrightarrow> importRequired (JObj ps) \<Longrightarrow>
     performImport P fileContent w =
       (alert ''Proyek berhasil diimpor!'' w, Some (Some (AnotherObject (backfill ps))))"
  by (simp add: performImport_def performImport_try_def accepted_import setProjectData_def)

text \<open>
  C3. An import that the user declines changes nothing but the record of the question, and
  reports nothing. An import that goes ahead and does not succeed, because the text does
  not parse or because the parsed value lacks a truthy \<^verbatim>\<open>title\<close>, \<^verbatim>\<open>outline\<close>, \<^verbatim>\<open>chapters\<close> or
  \<^verbatim>\<open>authorInfo\<close>, leaves the document, both flags and the slot as they were and shows the
  failure message with the error's description. Every other import succeeds: the
  backfilled object becomes the active document and the success message is shown.
\<close>

theorem import_atomic:
  "(projectData w \<noteq> None \<and> \<not> confirm importQuestion \<longrightarrow>
      importProject P confirm fileContent w = w\<lparr>confirms := confirms w @ [importQuestion]\<rparr>) \<and>
   (projectData w = None \<or> confirm importQuestion \<longrightarrow>
      (\<forall>m. JSON_parse P fileContent = Inl m \<longrightarrow>
         sameStore w (importProject P confirm fileContent w) \<and>
         alerts (importProject P confirm fileContent w) = alerts w @ [importFailedPrefix @ m]) \<and>
      (\<forall>v. JSON_parse P fileContent = Inr v \<and> \<not> importRequired v \<longrightarrow>
         sameStore w (importProject P confirm fileContent w) \<and>
         alerts (importProject P confirm fileContent w) =
           alerts w @ [importFailedPrefix @
             message P (if v = JNull then TypeError ''title'' else invalidStructure)]) \<and>
      (\<forall>v. JSON_parse P fileContent = Inr v \<and> importRequired v \<longrightarrow>
         (\<exists>ps. v = JObj ps \<and>
            projectData (importProject P confirm fileContent w) = Some (backfill ps) \<and>
            alerts (importProject P confirm fileContent w) = alerts w @ [''Proyek berhasil diimpor!''])))"
proof (intro conjI impI allI)
  assume "projectData w \<noteq> None \<and> \<not> confirm importQuestion"
  then show "importProject P confirm fileContent w = w\<lparr>confirms := confirms w @ [importQuestion]\<rparr>"
    by (auto simp: importProject_defs ask_def render_def)
next
  fix m
  assume "projectData w = None \<or> confirm importQuestion" and "JSON_parse P fileContent = Inl m"
  then show "sameStore w (importProject P confirm fileContent w)"
    and "alerts (importProject P confirm fileContent w) = alerts w @ [importFailedPrefix @ m]"
    by (auto simp: importProject_defs performImport_fails sameStore_def op_defs split: option.splits)
next
  fix v
  assume "projectData w = None \<or> confirm importQuestion"
    and "JSON_parse P fileContent = Inr v \<and> \<not> importRequired v"
  then show "sameStore w (importProject P confirm fileContent w)"
    and "alerts (importProject P confirm fileContent w) =
           alerts w @ [importFailedPrefix @
             message P (if v = JNull then TypeError ''title'' else invalidStructure)]"
    by (auto simp: importProject_defs performImport_rejects sameStore_def op_defs split: option.splits)
next
  fix v
  assume c: "projectData w = None \<or> confirm importQuestion"
    and "JSON_parse P fileContent = Inr v \<and> importRequired v"
  then obtain ps where v: "v = JObj ps" and p: "JSON_parse P fileContent = Inr (JObj ps)"
    and r: "importRequired (JObj ps)"
    using importRequired_obj by blast
  have "projectData (importProject P confirm fileContent w) = Some (backfill ps) \<and>
        alerts (importProject P confirm fileContent w) = alerts w @ [''Proyek berhasil diimpor!'']"
    using c by (auto simp: importProject_defs performImport_accepts [OF p r] op_defs split: option.splits)
  with v show "\<exists>ps. v = JObj ps \<and>
            projectData (importProject P confirm fileContent w) = Some (backfill ps) \<and>
            alerts (importProject P confirm fileContent w) = alerts w @ [''Proyek berhasil diimpor!'']"
    by blast
qed

theorem import_atomic_witness:
  "projectData (sampleState ''T'' ''<p>P</p>'') = Some (sampleDocument ''T'' ''<p>P</p>'') \<and>
   importProject noChaptersPlatform (\<lambda>q. False) noChaptersText (sampleState ''T'' ''<p>P</p>'') =
     (sampleState ''T'' ''<p>P</p>'')\<lparr>confirms := [importQuestion]\<rparr> \<and>
   JSON_parse noChaptersPlatform ''{title:'' = Inl ''Unexpected token'' \<and>
   sameStore (sampleState ''T'' ''<p>P</p>'')
     (importProject noChaptersPlatform (\<lambda>q. True) ''{title:'' (sampleState ''T'' ''<p>P</p>'')) \<and>
   alerts (importProject noChaptersPlatform (\<lambda>q. True) ''{title:'' (sampleState ''T'' ''<p>P</p>'')) =
     [importFailedPrefix @ ''Unexpected token''] \<and>
   JSON_parse noChaptersPlatform noChaptersText = Inr (JObj noChapters) \<and>
   map_of noChapters ''chapters'' = None \<and>
   sameStore (sampleState ''T'' ''<p>P</p>'')
     (importProject noChaptersPlatform (\<lambda>q. True) noChaptersText (sampleState ''T'' ''<p>P</p>'')) \<and>
   alerts (importProject noChaptersPlatform (\<lambda>q. True) noChaptersText (sampleState ''T'' ''<p>P</p>'')) =
     [importFailedPrefix @ ''Struktur file tidak valid atau file rusak.'']"
proof -
  let ?w = "sampleState ''T'' ''<p>P</p>''" and ?P = noChaptersPlatform
  have a: "projectData ?w = Some (sampleDocument ''T'' ''<p>P</p>'')" and al: "alerts ?w = []"
    and co: "confirms ?w = []"
    by (simp_all add: sample_defs op_defs)
  have p1: "JSON_parse ?P ''{title:'' = Inl ''Unexpected token''"
    by (simp add: noChaptersPlatform_def knownPlatform_def noChaptersText_def)
  have p2: "JSON_parse ?P noChaptersText = Inr (JObj noChapters)"
    by (simp add: noChaptersPlatform_def knownPlatform_def)
  have m: "map_of noChapters ''chapters'' = None"
    by (simp add: noChapters_def)
  have r: "\<not> importRequired (JObj noChapters)"
    by (simp add: importRequired_def hasTruthy_def truthyProp_def m)
  from import_atomic [of ?w "\<lambda>q. False" ?P noChaptersText] a co
  have d: "importProject ?P (\<lambda>q. False) noChaptersText ?w = ?w\<lparr>confirms := [importQuestion]\<rparr>"
    by simp
  from import_atomic [of ?w "\<lambda>q. True" ?P "''{title:''"] p1 al
  have u: "sameStore ?w (importProject ?P (\<lambda>q. True) ''{title:'' ?w) \<and>
           alerts (importProject ?P (\<lambda>q. True) ''{title:'' ?w) = [importFailedPrefix @ ''Unexpected token'']"
    by simp
  from import_atomic [of ?w "\<lambda>q. True" ?P noChaptersText] p2 r al
  have l: "sameStore ?w (importProject ?P (\<lambda>q. True) noChaptersText ?w) \<and>
           alerts (importProject ?P (\<lambda>q. True) noChaptersText ?w) =
             [importFailedPrefix @ ''Struktur file tidak valid atau file rusak.'']"
    by (simp add: invalidStructure_def)
  from a d p1 u p2 m l show ?thesis by simp
qed

subsection \<open>Backfill on load and on import\<close>

text \<open>
  C5, as the code has it. The backfill concerns six fields. Each of them that is missing
  or falsy gets its default, each that is truthy is kept, and no other property changes.
  Applying it twice is applying it once. It leaves a document alone when each of the six
  fields is truthy or already its default. It is what an accepted import and an accepted
  load apply to the parsed object.
\<close>

theorem backfill_idempotent:
  "(\<forall>(k, d) \<in> set optionalDefaults.
       map_of (backfill ps) k = (if truthyProp (map_of ps k) then map_of ps k else Some d)) \<and>
   (\<forall>k. k \<notin> fst ` set optionalDefaults \<longrightarrow> map_of (backfill ps) k = map_of ps k) \<and>
   length optionalDefaults = 6 \<and>
   backfill (backfill ps) = backfill ps \<and>
   (complete ps \<longrightarrow> backfill ps = ps) \<and>
   (JSON_parse P fileContent = Inr (JObj ps) \<and> importRequired (JObj ps) \<and>
    (projectData w = None \<or> confirm importQuestion) \<longrightarrow>
      projectData (importProject P confirm fileContent w) = Some (backfill ps)) \<and>
   (ls storageKey = Some s \<and> s \<noteq> [] \<and> JSON_parse P s = Inr (JObj ps) \<and>
    hasTruthy (JObj ps) ''title'' \<and> hasTruthy (JObj ps) ''authorInfo'' \<longrightarrow>
      fst (getInitialData P initialProjectData ls) = Some (backfill ps))"
proof -
  have a: "\<forall>(k, d) \<in> set optionalDefaults.
       map_of (backfill ps) k = (if truthyProp (map_of ps k) then map_of ps k else Some d)"
    by (simp add: map_of_backfill optionalDefaults_def)
  have b: "\<forall>k. k \<notin> fst ` set optionalDefaults \<longrightarrow> map_of (backfill ps) k = map_of ps k"
    by (simp add: map_of_backfill optionalDefaults_def)
  have c: "backfill (backfill ps) = backfill ps"
    using complete_backfill by (rule complete_backfill_id)
  have d: "JSON_parse P fileContent = Inr (JObj ps) \<and> importRequired (JObj ps) \<and>
    (projectData w = None \<or> confirm importQuestion) \<longrightarrow>
      projectData (importProject P confirm fileContent w) = Some (backfill ps)"
    by (auto simp: importProject_defs performImport_accepts op_defs split: option.splits)
  have e: "ls storageKey = Some s \<and> s \<noteq> [] \<and> JSON_parse P s = Inr (JObj ps) \<and>
    hasTruthy (JObj ps) ''title'' \<and> hasTruthy (JObj ps) ''authorInfo'' \<longrightarrow>
      fst (getInitialData P initialProjectData ls) = Some (backfill ps)"
    by (simp add: getInitialData_def getInitialData_try_def accepted_def hasTruthy_def)
  have f: "length optionalDefaults = 6"
    by (simp add: optionalDefaults_def)
  from a b f c complete_backfill_id d e show ?thesis by blast
qed

theorem backfill_idempotent_witness:
  "map_of (backfill noChapters) ''bibliography'' = Some (JArr []) \<and>
   map_of (backfill noChapters) ''appendices'' = Some (JArr []) \<and>
   map_of (backfill noChapters) ''statementPageData'' = Some JNull \<and>
   map_of (backfill noChapters) ''approvalData'' = Some JNull \<and>
   map_of (backfill noChapters) ''preface'' = Some (JStr ''<p>Kata Pengantar belum dibuat.</p>'') \<and>
   map_of (backfill noChapters) ''abstract'' = Some (JStr ''<p>Abstrak belum dibuat.</p>'') \<and>
   map_of (backfill noChapters) ''title'' = Some (JStr ''T'') \<and>
   complete (sampleDocument ''T'' ''<p>P</p>'') \<and>
   backfill (sampleDocument ''T'' ''<p>P</p>'') = sampleDocument ''T'' ''<p>P</p>''"
proof -
  have c: "complete (sampleDocument ''T'' ''<p>P</p>'')"
    by (simp add: complete_def optionalDefaults_def sampleDocument_def truthyProp_def)
  have n: "\<forall>(k, d) \<in> set optionalDefaults. \<not> truthyProp (map_of noChapters k)"
    and t: "''title'' \<notin> fst ` set optionalDefaults" "map_of noChapters ''title'' = Some (JStr ''T'')"
    by (simp_all add: optionalDefaults_def noChapters_def truthyProp_def)
  from backfill_idempotent [of noChapters] n t
  have "map_of (backfill noChapters) ''bibliography'' = Some (JArr []) \<and>
   map_of (backfill noChapters) ''appendices'' = Some (JArr []) \<and>
   map_of (backfill noChapters) ''statementPageData'' = Some JNull \<and>
   map_of (backfill noChapters) ''approvalData'' = Some JNull \<and>
   map_of (backfill noChapters) ''preface'' = Some (JStr ''<p>Kata Pengantar belum dibuat.</p>'') \<and>
   map_of (backfill noChapters) ''abstract'' = Some (JStr ''<p>Abstrak belum dibuat.</p>'') \<and>
   map_of (backfill noChapters) ''title'' = Some (JStr ''T'')"
    by (simp add: optionalDefaults_def)
  moreover from backfill_idempotent [of "sampleDocument ''T'' ''<p>P</p>''"] c
  have "backfill (sampleDocument ''T'' ''<p>P</p>'') = sampleDocument ''T'' ''<p>P</p>''"
    by simp
  ultimately show ?thesis using c by simp
qed

text \<open>
  A document can have all six fields and still be changed: a preface that is the empty
  string is replaced by the placeholder, by the backfill and so by an import.
\<close>

theorem backfill_complete_counterexample:
  "list_all (\<lambda>(k, d). map_of (sampleDocument ''T'' []) k \<noteq> None) optionalDefaults \<and>
   map_of (sampleDocument ''T'' []) ''preface'' = Some (JStr []) \<and>
   map_of (backfill (sampleDocument ''T'' [])) ''preface'' =
     Some (JStr ''<p>Kata Pengantar belum dibuat.</p>'') \<and>
   projectData (startNewProject (samplePlatform ''T'' []) (\<lambda>q. True) (sampleState ''T'' [])) = None \<and>
   projectData (importProject (samplePlatform ''T'' []) (\<lambda>q. False) (samplePretty ''T'' [])
       (startNewProject (samplePlatform ''T'' []) (\<lambda>q. True) (sampleState ''T'' []))) =
     Some (sampleDocument ''T'' ''<p>Kata Pengantar belum dibuat.</p>'')"
proof -
  have b: "backfill (sampleDocument ''T'' []) = sampleDocument ''T'' ''<p>Kata Pengantar belum dibuat.</p>''"
    by (simp add: backfill_def fillDefault_def sampleDocument_def truthyProp_def)
  have n: "projectData (startNewProject (samplePlatform ''T'' []) (\<lambda>q. True) (sampleState ''T'' [])) = None"
    by (simp add: startNewProject_defs op_defs sampleState_def)
  have p: "JSON_parse (samplePlatform ''T'' []) (samplePretty ''T'' []) = Inr (JObj (sampleDocument ''T'' []))"
    by (simp add: samplePlatform_def knownPlatform_def)
  have r: "accepted ''title'' [''outline'', ''chapters'', ''authorInfo''] (JObj (sampleDocument ''T'' []))
      = Inr (Some (sampleDocument ''T'' []))"
    by (simp add: accepted_def sampleDocument_def truthyProp_def)
  have i: "projectData (importProject (samplePlatform ''T'' []) (\<lambda>q. False) (samplePretty ''T'' [])
       (startNewProject (samplePlatform ''T'' []) (\<lambda>q. True) (sampleState ''T'' []))) =
     Some (sampleDocument ''T'' ''<p>Kata Pengantar belum dibuat.</p>'')"
    by (simp add: importProject_defs n performImport_def performImport_try_def p r b op_defs)
  have l: "list_all (\<lambda>(k, d). map_of (sampleDocument ''T'' []) k \<noteq> None) optionalDefaults"
    by (simp add: optionalDefaults_def sampleDocument_def)
  have m: "map_of (sampleDocument ''T'' []) ''preface'' = Some (JStr [])"
    by (simp add: sampleDocument_def)
  have m': "map_of (backfill (sampleDocument ''T'' [])) ''preface'' =
     Some (JStr ''<p>Kata Pengantar belum dibuat.</p>'')"
    by (simp add: b) (simp add: sampleDocument_def)
  from l m m' n i show ?thesis by simp
qed

subsection \<open>Export\<close>

lemma exportProject_string_title:
  "projectData w = Some d \<Longrightarrow> map_of d ''title'' = Some (JStr title) \<Longrightarrow>
     exportProject P w = w\<lparr>downloads := downloads w @ [(fileName title, JSON_stringify P 2 (JObj d))]\<rparr>"
  by (simp add: exportProject_def exportProject_try_def)

lemma hyphen_not_alnum: "\<not> isAlnum (CHR ''-'')"
  by (simp add: isAlnum_def)

lemma spec_hyphenate_replaceRuns:
  "spec_hyphenate False s = replaceRuns s \<and>
   spec_hyphenate True s = replaceRuns (dropWhile (\<lambda>x. \<not> isAlnum x) s)"
  by (induction s) auto

lemma replaceRuns_head:
  "s = [] \<or> isAlnum (hd s) \<Longrightarrow> replaceRuns s = [] \<or> isAlnum (hd (replaceRuns s))"
  by (cases s) auto

lemma dropWhile_head: "dropWhile (\<lambda>x. \<not> isAlnum x) s = [] \<or> isAlnum (hd (dropWhile (\<lambda>x. \<not> isAlnum x) s))"
  using hd_dropWhile [of "\<lambda>x. \<not> isAlnum x" s] by auto

lemma noDouble_Cons:
  "noDouble (a # s) \<longleftrightarrow> (s = [] \<or> \<not> (a = CHR ''-'' \<and> hd s = CHR ''-'')) \<and> noDouble s"
  by (cases s) auto

lemma noDouble_replaceRuns: "noDouble (replaceRuns s)"
proof (induction s rule: replaceRuns.induct)
  case 1
  show ?case by simp
next
  case (2 c cs)
  show ?case
  proof (cases "isAlnum c")
    case True
    with 2 hyphen_not_alnum show ?thesis by (auto simp: noDouble_Cons)
  next
    case False
    let ?r = "replaceRuns (dropWhile (\<lambda>x. \<not> isAlnum x) cs)"
    from replaceRuns_head [OF dropWhile_head [of cs]]
    have "?r = [] \<or> hd ?r \<noteq> CHR ''-''" using hyphen_not_alnum by auto
    with 2 False show ?thesis by (auto simp: noDouble_Cons)
  qed
qed

lemma noDouble_append:
  "noDouble (xs @ ys) \<longleftrightarrow>
     noDouble xs \<and> noDouble ys \<and> (xs = [] \<or> ys = [] \<or> \<not> (last xs = CHR ''-'' \<and> hd ys = CHR ''-''))"
proof (induction xs)
  case Nil
  show ?case by simp
next
  case (Cons a xs)
  show ?case
  proof (cases xs)
    case Nil
    then show ?thesis by (auto simp: noDouble_Cons)
  next
    case (Cons b r)
    with Cons.IH show ?thesis by auto
  qed
qed

lemma noDouble_rev: "noDouble (rev s) = noDouble s"
proof (induction s)
  case Nil
  show ?case by simp
next
  case (Cons a s)
  then show ?case
    by (cases s) (auto simp: noDouble_append noDouble_Cons hd_rev last_rev)
qed

lemma dropWhile_stays: "s = [] \<or> hd s \<noteq> c \<Longrightarrow> dropWhile (\<lambda>x. x = c) s = s"
  by (cases s) auto

lemma dropWhile_hyphen:
  "noDouble s \<Longrightarrow>
   dropWhile (\<lambda>c. c = CHR ''-'') s = (case s of [] \<Rightarrow> [] | c # cs \<Rightarrow> if c = CHR ''-'' then cs else c # cs)"
  by (cases s) (auto simp: noDouble_Cons dropWhile_stays)

lemma stripEdges_spec_trim:
  assumes "noDouble s"
  shows "stripEdges s = spec_trim s"
proof -
  let ?s1 = "case s of [] \<Rightarrow> [] | c # cs \<Rightarrow> if c = CHR ''-'' then cs else c # cs"
  have s1: "dropWhile (\<lambda>c. c = CHR ''-'') s = ?s1"
    using assms by (rule dropWhile_hyphen)
  have n1: "noDouble ?s1"
    using assms by (cases s) (auto simp: noDouble_Cons)
  then have "noDouble (rev ?s1)" by (simp add: noDouble_rev)
  then have "dropWhile (\<lambda>c. c = CHR ''-'') (rev ?s1) =
      (case rev ?s1 of [] \<Rightarrow> [] | c # cs \<Rightarrow> if c = CHR ''-'' then cs else c # cs)"
    by (rule dropWhile_hyphen)
  also have "\<dots> = rev (if ?s1 \<noteq> [] \<and> last ?s1 = CHR ''-'' then butlast ?s1 else ?s1)"
  proof (cases "?s1" rule: rev_cases)
    case Nil
    then show ?thesis by simp
  next
    case (snoc ys y)
    then show ?thesis by simp
  qed
  finally show ?thesis
    by (simp add: stripEdges_def spec_trim_def s1 Let_def)
qed

lemma sanitizedTitle_spec_slug: "sanitizedTitle title = spec_slug title"
  by (simp add: sanitizedTitle_def spec_slug_def spec_hyphenate_replaceRuns
      stripEdges_spec_trim noDouble_replaceRuns)

text \<open>
  C8. For an active document whose title is a string, \<^verbatim>\<open>exportProject\<close> offers one file,
  named \<^verbatim>\<open>proyek-akademik-<slug>.json\<close>, where the slug is the one the specification words,
  or \<^verbatim>\<open>tanpa-judul\<close> when that is empty. The title \<^verbatim>\<open>Analisis Data!!\<close> gives the slug
  \<^verbatim>\<open>analisis-data\<close>; the title \<^verbatim>\<open>???\<close> gives the empty slug and the fallback name.
\<close>

theorem export_fileName:
  assumes "projectData w = Some d" and "map_of d ''title'' = Some (JStr title)"
  shows "downloads (exportProject P w) =
           downloads w @
             [(''proyek-akademik-''
                 @ (if spec_slug title = [] then ''tanpa-judul'' else spec_slug title) @ ''.json'',
               JSON_stringify P 2 (JObj d))] \<and>
         sanitizedTitle title = spec_slug title \<and>
         sanitizedTitle ''Analisis Data!!'' = ''analisis-data'' \<and>
         sanitizedTitle ''???'' = [] \<and>
         fileName ''???'' = ''proyek-akademik-tanpa-judul.json''"
proof -
  have a: "sanitizedTitle ''Analisis Data!!'' = ''analisis-data''" by code_simp
  have b: "sanitizedTitle ''???'' = []" by code_simp
  have c: "fileName ''???'' = ''proyek-akademik-tanpa-judul.json''" by code_simp
  have "downloads (exportProject P w) = downloads w @ [(fileName title, JSON_stringify P 2 (JObj d))]"
    using assms by (simp add: exportProject_string_title)
  then show ?thesis
    using a b c by (simp add: fileName_def sanitizedTitle_spec_slug)
qed

theorem export_fileName_witness:
  "projectData (sampleState ''Analisis Data!!'' ''<p>P</p>'') =
     Some (sampleDocument ''Analisis Data!!'' ''<p>P</p>'') \<and>
   map_of (sampleDocument ''Analisis Data!!'' ''<p>P</p>'') ''title'' = Some (JStr ''Analisis Data!!'') \<and>
   downloads (exportProject (samplePlatform ''Analisis Data!!'' ''<p>P</p>'')
       (sampleState ''Analisis Data!!'' ''<p>P</p>'')) =
     [(''proyek-akademik-analisis-data.json'', samplePretty ''Analisis Data!!'' ''<p>P</p>'')]"
proof -
  let ?P = "samplePlatform ''Analisis Data!!'' ''<p>P</p>''"
  let ?w = "sampleState ''Analisis Data!!'' ''<p>P</p>''"
  let ?d = "sampleDocument ''Analisis Data!!'' ''<p>P</p>''"
  have a: "projectData ?w = Some ?d" and dl: "downloads ?w = []"
    by (simp_all add: sampleState_def)
  have t: "map_of ?d ''title'' = Some (JStr ''Analisis Data!!'')"
    by (simp add: sampleDocument_def)
  have s: "JSON_stringify ?P 2 (JObj ?d) = samplePretty ''Analisis Data!!'' ''<p>P</p>''"
    by (simp add: samplePlatform_def knownPlatform_def)
  have g: "spec_slug ''Analisis Data!!'' = ''analisis-data''" by code_simp
  from export_fileName [OF a t, of ?P] s dl g a t
  show ?thesis by simp
qed

subsection \<open>Export, then import\<close>

text \<open>
  C4, as the code has it. Take an active document whose title is a string and whose
  exported text \<^verbatim>\<open>JSON.parse\<close> reads back as the document. Exporting it offers that text for
  download and changes nothing else. When its four required fields are truthy and the
  backfill has nothing to do on it, importing the text, the question answered with yes,
  succeeds: the question is recorded, the success message is shown, the object parsed from
  the text, equal to the original, becomes the active document, and the effect writes its
  serialization to the slot; the same import into any other state makes a document equal
  to the original the active one there. These two conditions are also needed: without
  them the import does not end with the success message and a document equal to the
  original.
\<close>

theorem export_import_roundtrip:
  assumes "projectData w = Some d" and "map_of d ''title'' = Some (JStr title)"
    and "JSON_parse P (JSON_stringify P 2 (JObj d)) = Inr (JObj d)" and "confirm importQuestion"
  shows "exportProject P w =
           w\<lparr>downloads := downloads w @ [(fileName title, JSON_stringify P 2 (JObj d))]\<rparr> \<and>
         (importRequired (JObj d) \<and> complete d \<longrightarrow>
            importProject P confirm (JSON_stringify P 2 (JObj d)) (exportProject P w) =
              w\<lparr>downloads := downloads w @ [(fileName title, JSON_stringify P 2 (JObj d))],
                confirms := confirms w @ [importQuestion],
                alerts := alerts w @ [''Proyek berhasil diimpor!''],
                projectData := Some d,
                localStorage := (localStorage w)(storageKey \<mapsto> JSON_stringify P 0 (JObj d))\<rparr> \<and>
            (\<forall>w2. projectData (importProject P confirm (JSON_stringify P 2 (JObj d)) w2) = Some d \<and>
                  alerts (importProject P confirm (JSON_stringify P 2 (JObj d)) w2) =
                    alerts w2 @ [''Proyek berhasil diimpor!''] \<and>
                  localStorage (importProject P confirm (JSON_stringify P 2 (JObj d)) w2) storageKey =
                    Some (JSON_stringify P 0 (JObj d)))) \<and>
         (projectData (importProject P confirm (JSON_stringify P 2 (JObj d)) (exportProject P w)) =
            Some d \<and>
          alerts (importProject P confirm (JSON_stringify P 2 (JObj d)) (exportProject P w)) =
            alerts w @ [''Proyek berhasil diimpor!'']
          \<longleftrightarrow> importRequired (JObj d) \<and> complete d)"
proof -
  let ?text = "JSON_stringify P 2 (JObj d)"
  let ?w1 = "w\<lparr>downloads := downloads w @ [(fileName title, ?text)]\<rparr>"
  have e: "exportProject P w = ?w1"
    using assms(1,2) by (rule exportProject_string_title)
  have good: "importProject P confirm ?text ?w1 =
           w\<lparr>downloads := downloads w @ [(fileName title, ?text)],
             confirms := confirms w @ [importQuestion],
             alerts := alerts w @ [''Proyek berhasil diimpor!''],
             projectData := Some d,
             localStorage := (localStorage w)(storageKey \<mapsto> JSON_stringify P 0 (JObj d))\<rparr> \<and>
         (\<forall>w2. projectData (importProject P confirm ?text w2) = Some d \<and>
               alerts (importProject P confirm ?text w2) = alerts w2 @ [''Proyek berhasil diimpor!''] \<and>
               localStorage (importProject P confirm ?text w2) storageKey =
                 Some (JSON_stringify P 0 (JObj d)))"
    if r: "importRequired (JObj d)" and c: "complete d"
  proof -
    have b: "backfill d = d"
      using c by (rule complete_backfill_id)
    have i: "performImport P ?text w' =
        (alert ''Proyek berhasil diimpor!'' w', Some (Some (AnotherObject d)))" for w'
      using performImport_accepts [OF assms(3) r, of w'] by (simp add: b)
    have "importProject P confirm ?text ?w1 =
           w\<lparr>downloads := downloads w @ [(fileName title, ?text)],
             confirms := confirms w @ [importQuestion],
             alerts := alerts w @ [''Proyek berhasil diimpor!''],
             projectData := Some d,
             localStorage := (localStorage w)(storageKey \<mapsto> JSON_stringify P 0 (JObj d))\<rparr>"
      using assms(1,4) by (simp add: importProject_defs i op_defs)
    moreover have "projectData (importProject P confirm ?text w2) = Some d \<and>
         alerts (importProject P confirm ?text w2) = alerts w2 @ [''Proyek berhasil diimpor!''] \<and>
         localStorage (importProject P confirm ?text w2) storageKey =
           Some (JSON_stringify P 0 (JObj d))" for w2
      using assms(4) by (simp add: importProject_defs i op_defs split: option.splits)
    ultimately show ?thesis by simp
  qed
  have needed: "importRequired (JObj d) \<and> complete d"
    if s: "projectData (importProject P confirm ?text ?w1) = Some d"
      and m: "alerts (importProject P confirm ?text ?w1) = alerts w @ [''Proyek berhasil diimpor!'']"
  proof -
    have r: "importRequired (JObj d)"
    proof (rule ccontr)
      assume n: "\<not> importRequired (JObj d)"
      have "alerts (importProject P confirm ?text ?w1) \<noteq> alerts w @ [''Proyek berhasil diimpor!'']"
        using assms(1,4)
        by (simp add: importProject_defs performImport_rejects [OF assms(3) n] op_defs
            importFailedPrefix_def)
      with m show False by simp
    qed
    have "projectData (importProject P confirm ?text ?w1) = Some (backfill d)"
      using assms(1,4) by (simp add: importProject_defs performImport_accepts [OF assms(3) r] op_defs)
    with s have "backfill d = d" by simp
    with complete_backfill [of d] have "complete d" by simp
    with r show ?thesis by simp
  qed
  have came: "projectData (importProject P confirm ?text ?w1) = Some d \<and>
      alerts (importProject P confirm ?text ?w1) = alerts w @ [''Proyek berhasil diimpor!'']"
    if "importRequired (JObj d)" and "complete d"
    using good [OF that] by simp
  show ?thesis
    unfolding e
  proof (intro conjI impI)
    show "?w1 = ?w1" by (rule refl)
  next
    assume "importRequired (JObj d) \<and> complete d"
    then show "importProject P confirm ?text ?w1 =
           w\<lparr>downloads := downloads w @ [(fileName title, ?text)],
             confirms := confirms w @ [importQuestion],
             alerts := alerts w @ [''Proyek berhasil diimpor!''],
             projectData := Some d,
             localStorage := (localStorage w)(storageKey \<mapsto> JSON_stringify P 0 (JObj d))\<rparr>"
      using good by blast
  next
    assume "importRequired (JObj d) \<and> complete d"
    then show "\<forall>w2. projectData (importProject P confirm ?text w2) = Some d \<and>
               alerts (importProject P confirm ?text w2) = alerts w2 @ [''Proyek berhasil diimpor!''] \<and>
               localStorage (importProject P confirm ?text w2) storageKey =
                 Some (JSON_stringify P 0 (JObj d))"
      using good by blast
  next
    show "(projectData (importProject P confirm ?text ?w1) = Some d \<and>
          alerts (importProject P confirm ?text ?w1) = alerts w @ [''Proyek berhasil diimpor!''])
          = (importRequired (JObj d) \<and> complete d)"
      using came needed by blast
  qed
qed

theorem export_import_roundtrip_witness:
  "projectData (sampleState ''Analisis Data!!'' ''<p>P</p>'') =
     Some (sampleDocument ''Analisis Data!!'' ''<p>P</p>'') \<and>
   importRequired (JObj (sampleDocument ''Analisis Data!!'' ''<p>P</p>'')) \<and>
   complete (sampleDocument ''Analisis Data!!'' ''<p>P</p>'') \<and>
   downloads (exportProject (samplePlatform ''Analisis Data!!'' ''<p>P</p>'')
       (sampleState ''Analisis Data!!'' ''<p>P</p>'')) =
     [(''proyek-akademik-analisis-data.json'', samplePretty ''Analisis Data!!'' ''<p>P</p>'')] \<and>
   projectData (importProject (samplePlatform ''Analisis Data!!'' ''<p>P</p>'') (\<lambda>q. True)
       (samplePretty ''Analisis Data!!'' ''<p>P</p>'')
       (exportProject (samplePlatform ''Analisis Data!!'' ''<p>P</p>'')
          (sampleState ''Analisis Data!!'' ''<p>P</p>''))) =
     Some (sampleDocument ''Analisis Data!!'' ''<p>P</p>'') \<and>
   alerts (importProject (samplePlatform ''Analisis Data!!'' ''<p>P</p>'') (\<lambda>q. True)
       (samplePretty ''Analisis Data!!'' ''<p>P</p>'')
       (exportProject (samplePlatform ''Analisis Data!!'' ''<p>P</p>'')
          (sampleState ''Analisis Data!!'' ''<p>P</p>''))) = [''Proyek berhasil diimpor!''] \<and>
   projectData (startNewProject (samplePlatform ''Analisis Data!!'' ''<p>P</p>'') (\<lambda>q. True)
       (sampleState ''T'' ''<p>X</p>'')) = None \<and>
   projectData (importProject (samplePlatform ''Analisis Data!!'' ''<p>P</p>'') (\<lambda>q. True)
       (samplePretty ''Analisis Data!!'' ''<p>P</p>'')
       (startNewProject (samplePlatform ''Analisis Data!!'' ''<p>P</p>'') (\<lambda>q. True)
          (sampleState ''T'' ''<p>X</p>''))) =
     Some (sampleDocument ''Analisis Data!!'' ''<p>P</p>'')"
proof -
  let ?P = "samplePlatform ''Analisis Data!!'' ''<p>P</p>''"
  let ?w = "sampleState ''Analisis Data!!'' ''<p>P</p>''"
  let ?d = "sampleDocument ''Analisis Data!!'' ''<p>P</p>''"
  let ?t = "samplePretty ''Analisis Data!!'' ''<p>P</p>''"
  let ?w2 = "startNewProject ?P (\<lambda>q. True) (sampleState ''T'' ''<p>X</p>'')"
  have a: "projectData ?w = Some ?d" and dl: "downloads ?w = []" and al: "alerts ?w = []"
    by (simp_all add: sampleState_def)
  have t: "map_of ?d ''title'' = Some (JStr ''Analisis Data!!'')"
    by (simp add: sampleDocument_def)
  have q: "importRequired (JObj ?d)"
    by (simp add: importRequired_def hasTruthy_def sampleDocument_def truthyProp_def)
  have c: "complete ?d"
    by (simp add: complete_def optionalDefaults_def sampleDocument_def truthyProp_def)
  have s: "JSON_stringify ?P 2 (JObj ?d) = ?t"
    by (simp add: samplePlatform_def knownPlatform_def)
  have p: "JSON_parse ?P (JSON_stringify ?P 2 (JObj ?d)) = Inr (JObj ?d)"
    by (simp add: samplePlatform_def knownPlatform_def)
  have f: "fileName ''Analisis Data!!'' = ''proyek-akademik-analisis-data.json''"
    by code_simp
  have n: "projectData ?w2 = None"
    by (simp add: startNewProject_defs op_defs sampleState_def)
  note r = export_import_roundtrip [OF a t p, of "\<lambda>q. True"]
  from r have 1: "downloads (exportProject ?P ?w) = [(''proyek-akademik-analisis-data.json'', ?t)]"
    by (simp add: s dl f)
  from r q c have 2: "projectData (importProject ?P (\<lambda>q. True) ?t (exportProject ?P ?w)) = Some ?d"
    and 3: "alerts (importProject ?P (\<lambda>q. True) ?t (exportProject ?P ?w)) = [''Proyek berhasil diimpor!'']"
    by (simp_all add: s al)
  from r q c have 4: "projectData (importProject ?P (\<lambda>q. True) ?t ?w2) = Some ?d"
    by (simp add: s)
  from a q c 1 2 3 n 4 show ?thesis by simp
qed

text \<open>
  Two documents that do not come back. With every field present and an empty preface, the
  import of the exported text succeeds and puts the placeholder in the place of the empty
  preface. With an empty title, the export offers the text under the fallback name, and
  the import of that text is refused with the failure message.
\<close>

theorem export_import_counterexample:
  "projectData (sampleState ''T'' []) = Some (sampleDocument ''T'' []) \<and>
   downloads (exportProject (samplePlatform ''T'' []) (sampleState ''T'' [])) =
     [(''proyek-akademik-t.json'', samplePretty ''T'' [])] \<and>
   JSON_parse (samplePlatform ''T'' []) (samplePretty ''T'' []) = Inr (JObj (sampleDocument ''T'' [])) \<and>
   projectData (importProject (samplePlatform ''T'' []) (\<lambda>q. True) (samplePretty ''T'' [])
       (exportProject (samplePlatform ''T'' []) (sampleState ''T'' []))) =
     Some (sampleDocument ''T'' ''<p>Kata Pengantar belum dibuat.</p>'') \<and>
   sampleDocument ''T'' ''<p>Kata Pengantar belum dibuat.</p>'' \<noteq> sampleDocument ''T'' [] \<and>
   map_of (sampleDocument ''T'' ''<p>Kata Pengantar belum dibuat.</p>'') ''preface'' \<noteq>
     map_of (sampleDocument ''T'' []) ''preface'' \<and>
   projectData (sampleState [] ''<p>P</p>'') = Some (sampleDocument [] ''<p>P</p>'') \<and>
   downloads (exportProject (samplePlatform [] ''<p>P</p>'') (sampleState [] ''<p>P</p>'')) =
     [(''proyek-akademik-tanpa-judul.json'', samplePretty [] ''<p>P</p>'')] \<and>
   JSON_parse (samplePlatform [] ''<p>P</p>'') (samplePretty [] ''<p>P</p>'') =
     Inr (JObj (sampleDocument [] ''<p>P</p>'')) \<and>
   alerts (importProject (samplePlatform [] ''<p>P</p>'') (\<lambda>q. True) (samplePretty [] ''<p>P</p>'')
       (exportProject (samplePlatform [] ''<p>P</p>'') (sampleState [] ''<p>P</p>''))) =
     [''Gagal mengimpor proyek. Pastikan file JSON valid dan berasal dari aplikasi ini. Error: Struktur file tidak valid atau file rusak.'']"
proof -
  have f: "fileName ''T'' = ''proyek-akademik-t.json''" by code_simp
  have g: "fileName [] = ''proyek-akademik-tanpa-judul.json''" by code_simp
  have a: "projectData (sampleState ''T'' []) = Some (sampleDocument ''T'' [])"
    by (simp add: sampleState_def)
  have e: "exportProject (samplePlatform ''T'' []) (sampleState ''T'' []) =
      (sampleState ''T'' [])\<lparr>downloads := [(''proyek-akademik-t.json'', samplePretty ''T'' [])]\<rparr>"
    by (simp add: exportProject_def exportProject_try_def a)
       (simp add: sample_defs op_defs f)
  have p: "JSON_parse (samplePlatform ''T'' []) (samplePretty ''T'' []) = Inr (JObj (sampleDocument ''T'' []))"
    by (simp add: samplePlatform_def knownPlatform_def)
  have b: "backfill (sampleDocument ''T'' []) = sampleDocument ''T'' ''<p>Kata Pengantar belum dibuat.</p>''"
    by (simp add: backfill_def fillDefault_def sampleDocument_def truthyProp_def)
  have r: "accepted ''title'' [''outline'', ''chapters'', ''authorInfo''] (JObj (sampleDocument ''T'' []))
      = Inr (Some (sampleDocument ''T'' []))"
    by (simp add: accepted_def sampleDocument_def truthyProp_def)
  have i: "projectData (importProject (samplePlatform ''T'' []) (\<lambda>q. True) (samplePretty ''T'' [])
       (exportProject (samplePlatform ''T'' []) (sampleState ''T'' []))) =
     Some (sampleDocument ''T'' ''<p>Kata Pengantar belum dibuat.</p>'')"
    by (simp add: e importProject_defs performImport_def performImport_try_def p r b a op_defs)
  have a': "projectData (sampleState [] ''<p>P</p>'') = Some (sampleDocument [] ''<p>P</p>'')"
    and al: "alerts (sampleState [] ''<p>P</p>'') = []"
    by (simp_all add: sampleState_def)
  have e': "exportProject (samplePlatform [] ''<p>P</p>'') (sampleState [] ''<p>P</p>'') =
      (sampleState [] ''<p>P</p>'')\<lparr>downloads :=
         [(''proyek-akademik-tanpa-judul.json'', samplePretty [] ''<p>P</p>'')]\<rparr>"
    by (simp add: exportProject_def exportProject_try_def a')
       (simp add: sample_defs op_defs g)
  have p': "JSON_parse (samplePlatform [] ''<p>P</p>'') (samplePretty [] ''<p>P</p>'') =
     Inr (JObj (sampleDocument [] ''<p>P</p>''))"
    by (simp add: samplePlatform_def knownPlatform_def)
  have r': "accepted ''title'' [''outline'', ''chapters'', ''authorInfo'']
      (JObj (sampleDocument [] ''<p>P</p>'')) = Inr None"
    by (simp add: accepted_def sampleDocument_def truthyProp_def)
  have i': "alerts (importProject (samplePlatform [] ''<p>P</p>'') (\<lambda>q. True) (samplePretty [] ''<p>P</p>'')
       (exportProject (samplePlatform [] ''<p>P</p>'') (sampleState [] ''<p>P</p>''))) =
     [''Gagal mengimpor proyek. Pastikan file JSON valid dan berasal dari aplikasi ini. Error: Struktur file tidak valid atau file rusak.'']"
    by (simp add: e' importProject_defs performImport_def performImport_try_def p' r' a' al op_defs
        importFailedPrefix_def invalidStructure_def)
  show ?thesis using a e p i a' e' p' i' by (simp add: sampleDocument_def)
qed

end
